theory Spec2Isabelle
  imports Main
begin

section \<open>The image collection factory of \<open>lib/easy_cfs_images.js\<close>\<close>

text \<open>
  The package consists of one constructor, \<open>ImageCollectionFactory\<close>, its method
  \<open>createImageCollection\<close>, the replacement of \<open>FS.File.prototype.url\<close> that the
  constructor installs for a public-read bucket, and the small \<open>EasyImages\<close> object.

  The collaborators \<open>FS.Store.S3\<close>, \<open>FS.Collection\<close>, \<open>FS.HTTP\<close>, \<open>gm\<close> and the
  original \<open>FS.File.prototype.url\<close> belong to other packages. The two constructors are
  modelled as records of the arguments this code passes to them, a \<open>gm\<close> chain as the
  list of operations this code issues, and the original \<open>url\<close> method as a function
  parameter \<open>server\<close>. What those packages do with the arguments is outside the
  model.
\<close>

subsection \<open>Values and errors\<close>

text \<open>
  The values a \<open>sizes\<close> object can hold for a variant: in the intended use an array
  \<open>[width, height]\<close> of numbers.
\<close>

datatype jsval = Undefined | Null | Num int | Arr "jsval list"

datatype error = TypeError | MeteorError string

text \<open>
  \<open>v[i]\<close>: reading a property of \<open>undefined\<close> or \<open>null\<close> throws a TypeError, an
  index outside an array and any index of a number give \<open>undefined\<close>.
\<close>

fun index :: "jsval \<Rightarrow> nat \<Rightarrow> error + jsval" where
  "index Undefined i = Inl TypeError"
| "index Null i = Inl TypeError"
| "index (Num n) i = Inr Undefined"
| "index (Arr vs) i = Inr (if i < length vs then vs ! i else Undefined)"

text \<open>
  A string-or-null result (\<open>None\<close> is \<open>null\<close>) is truthy when it is a non-empty
  string.
\<close>

fun truthy :: "string option \<Rightarrow> bool" where
  "truthy None = False"
| "truthy (Some s) = (s \<noteq> [])"

text \<open>
  String concatenation with a value that is a string or \<open>undefined\<close> (\<open>None\<close>).
\<close>

fun to_string :: "string option \<Rightarrow> string" where
  "to_string None = ''undefined''"
| "to_string (Some s) = s"

subsection \<open>Data\<close>

text \<open>
  The arguments of one \<open>new FS.Store.S3(name, {...})\<close>. The function
  \<open>transformWrite\<close> is a closure over the variables \<open>x\<close> and \<open>y\<close>; it is
  represented by the pair of values it captures, and its body is \<open>transformWrite_body\<close>
  below. The store of the original has no \<open>transformWrite\<close> property.
\<close>

record s3_store =
  name :: string
  bucket :: string
  folder :: string
  ACL :: string
  accessKeyId :: string
  secretAccessKey :: string
  transformWrite :: "(jsval \<times> jsval) option"

text \<open>
  The \<open>filter\<close> option of the collection. Its \<open>onInvalid\<close> property is always the
  same function, \<open>onInvalid\<close> below.
\<close>

record filter_options =
  maxSize :: nat
  allow_contentTypes :: "string list"
  allow_extensions :: "string list"

text \<open>
  The arguments of one \<open>new FS.Collection(name, {stores, filter})\<close>. The field
  \<open>stores\<close> holds the contents of the array \<open>factory.stores\<close> at the moment of the
  call; the constructor receives the array itself, not a copy.
\<close>

record collection =
  collection_name :: string
  stores :: "s3_store list"
  collection_filter :: filter_options

text \<open>
  The \<open>options\<close> argument of the constructor; a field that is \<open>None\<close> is a property
  that is not set.
\<close>

record options =
  publicRead :: "bool option"
  bucketRegion :: "string option"

text \<open>
  A factory object: its two properties \<open>bucketUrl\<close> and \<open>stores\<close> (field
  \<open>factory_stores\<close>), and the variables of the constructor that
  \<open>createImageCollection\<close> reads.
\<close>

record factory =
  bucketUrl :: string
  factory_stores :: "s3_store list"
  var_accessKeyId :: string
  var_secretAccessKey :: string
  var_bucketName :: string
  var_acl :: string

text \<open>
  The methods \<open>FS.File.prototype.url\<close> can be: the one of the file package
  (server-mediated), or the function the constructor installs, which reads
  \<open>factory.bucketUrl\<close> of the factory that installed it. No code of the package
  assigns \<open>bucketUrl\<close> after construction, so the closure is represented by that
  string.
\<close>

datatype url_method = ServerMediated | DirectS3 string

text \<open>
  The process-wide state the constructor writes: the headers given to
  \<open>FS.HTTP.setHeadersForGet\<close>, \<open>FS.File.prototype.url\<close> (field \<open>prototype_url\<close>)
  and \<open>FS.File.prototype._url\<close> (field \<open>prototype_old_url\<close>, \<open>None\<close> while the
  property does not exist).
\<close>

record globals =
  headersForGet :: "(string \<times> string) list"
  prototype_url :: url_method
  prototype_old_url :: "url_method option"

text \<open>A file object, as far as \<open>url\<close> reads it.\<close>

record fs_file =
  collectionName :: string
  file_id :: string
  file_name :: string

text \<open>
  The \<open>options\<close> argument of \<open>url\<close>, when it is given: an object whose \<open>store\<close>
  property is a string or is not set (\<open>None\<close>).
\<close>

record url_options =
  store :: "string option"

text \<open>
  What \<open>transformWrite\<close> and \<open>onInvalid\<close> act on: the streams, addressed by a
  number, each with the list of \<open>gm\<close> jobs piped into it; the console; the alerts
  shown.
\<close>

datatype gm_op =
    Resize jsval jsval string
  | Gravity string
  | Crop jsval jsval
  | Quality nat
  | AutoOrient

record gm_job =
  job_source :: nat
  job_filename :: string
  job_ops :: "gm_op list"

record io =
  piped :: "nat \<Rightarrow> gm_job list"
  console_warn :: "string list"
  alerts :: "string list"

subsection \<open>The constructor\<close>

definition MAX_FILE_SIZE :: nat where
  "MAX_FILE_SIZE = 1024 * 1024 * 10"

text \<open>\<open>(options && options.bucketRegion) || ""\<close>, then the hyphen.\<close>

definition region :: "options option \<Rightarrow> string" where
  "region opts =
     (let r = (case opts of
                 None \<Rightarrow> []
               | Some o1 \<Rightarrow> (case bucketRegion o1 of None \<Rightarrow> [] | Some s \<Rightarrow> s))
      in if r \<noteq> [] then ''-'' @ r else r)"

text \<open>The truth value of \<open>options && options.publicRead\<close>.\<close>

definition is_publicRead :: "options option \<Rightarrow> bool" where
  "is_publicRead opts =
     (case opts of None \<Rightarrow> False | Some o1 \<Rightarrow> publicRead o1 = Some True)"

definition ImageCollectionFactory ::
  "string \<Rightarrow> string \<Rightarrow> string \<Rightarrow> options option \<Rightarrow> globals \<Rightarrow> factory \<times> globals" where
  "ImageCollectionFactory accessKeyId1 secretAccessKey1 bucketName opts g =
     (let g1 = g\<lparr>headersForGet := [(''Cache-Control'', ''public, max-age=31536000'')]\<rparr>;
          url1 = ''https://'' @ bucketName @ region opts @ ''.s3.amazonaws.com/'';
          f = \<lparr>bucketUrl = url1,
               factory_stores = [],
               var_accessKeyId = accessKeyId1,
               var_secretAccessKey = secretAccessKey1,
               var_bucketName = bucketName,
               var_acl = (if is_publicRead opts then ''public-read'' else ''private'')\<rparr>
      in if is_publicRead opts \<and> url1 \<noteq> []
         then (f, g1\<lparr>prototype_old_url := Some (prototype_url g1),
                     prototype_url := DirectS3 url1\<rparr>)
         else (f, g1))"

subsection \<open>createImageCollection\<close>

definition original_store :: "factory \<Rightarrow> string \<Rightarrow> s3_store" where
  "original_store f cn =
     \<lparr>name = cn @ ''-original'',
      bucket = var_bucketName f,
      folder = cn @ ''-original'',
      ACL = var_acl f,
      accessKeyId = var_accessKeyId f,
      secretAccessKey = var_secretAccessKey f,
      transformWrite = None\<rparr>"

definition variant_store :: "factory \<Rightarrow> string \<Rightarrow> string \<Rightarrow> jsval \<Rightarrow> jsval \<Rightarrow> s3_store" where
  "variant_store f cn sizeName x y =
     \<lparr>name = cn @ ''-'' @ sizeName,
      bucket = var_bucketName f,
      folder = cn @ ''-'' @ sizeName,
      ACL = var_acl f,
      accessKeyId = var_accessKeyId f,
      secretAccessKey = var_secretAccessKey f,
      transformWrite = Some (x, y)\<rparr>"

text \<open>
  The loop \<open>_.each(sizes, ...)\<close>. The list holds the entries of \<open>sizes\<close> in the order
  the loop visits them. A TypeError leaves the loop with the stores pushed so far
  still in \<open>factory.stores\<close>.
\<close>

fun each_size :: "factory \<Rightarrow> string \<Rightarrow> (string \<times> jsval) list \<Rightarrow> error option \<times> factory" where
  "each_size f cn [] = (None, f)"
| "each_size f cn ((sizeName, dimensions) # rest) =
     (case index dimensions 0 of
        Inl e \<Rightarrow> (Some e, f)
      | Inr x \<Rightarrow>
          (case index dimensions 1 of
             Inl e \<Rightarrow> (Some e, f)
           | Inr y \<Rightarrow>
               each_size
                 (f\<lparr>factory_stores := factory_stores f @ [variant_store f cn sizeName x y]\<rparr>)
                 cn rest))"

definition the_filter :: filter_options where
  "the_filter =
     \<lparr>maxSize = MAX_FILE_SIZE,
      allow_contentTypes = [''image/*''],
      allow_extensions = [''png'', ''jpg'', ''jpeg'', ''gif'']\<rparr>"

definition createImageCollection ::
  "factory \<Rightarrow> string \<Rightarrow> (string \<times> jsval) list \<Rightarrow> (error + collection) \<times> factory" where
  "createImageCollection f cn sizes =
     (let f1 = f\<lparr>factory_stores := factory_stores f @ [original_store f cn]\<rparr>
      in case each_size f1 cn sizes of
           (Some e, f2) \<Rightarrow> (Inl e, f2)
         | (None, f2) \<Rightarrow>
             (Inr \<lparr>collection_name = cn,
                   stores = factory_stores f2,
                   collection_filter = the_filter\<rparr>, f2))"

text \<open>
  The body of \<open>transformWrite\<close> for captured \<open>x\<close> and \<open>y\<close>: \<open>readStream\<close> and
  \<open>writeStream\<close> are the numbers of two streams, \<open>fileObj_name\<close> is the value of
  \<open>fileObj.name\<close>.
\<close>

definition transformWrite_body ::
  "bool \<Rightarrow> jsval \<Rightarrow> jsval \<Rightarrow> string \<Rightarrow> nat \<Rightarrow> nat \<Rightarrow> io \<Rightarrow> io" where
  "transformWrite_body gm_isAvailable x y fileObj_name readStream writeStream s =
     (if gm_isAvailable
      then s\<lparr>piped := (piped s)(writeStream := piped s writeStream @
                [\<lparr>job_source = readStream,
                  job_filename = fileObj_name,
                  job_ops = [Resize x y ''^'', Gravity ''Center'', Crop x y,
                             Quality 100, AutoOrient]\<rparr>])\<rparr>
      else s\<lparr>console_warn := console_warn s @ [''GraphicsMagick/ImageMagick not available'']\<rparr>)"

text \<open>The function given as \<open>filter.onInvalid\<close>.\<close>

definition onInvalid :: "bool \<Rightarrow> string \<Rightarrow> io \<Rightarrow> io" where
  "onInvalid Meteor_isClient message s =
     (if Meteor_isClient
      then s\<lparr>alerts := alerts s @ [message]\<rparr>
      else s\<lparr>console_warn := console_warn s @ [message]\<rparr>)"

subsection \<open>url\<close>

text \<open>\<open>options && options.store\<close>.\<close>

definition store_of :: "url_options option \<Rightarrow> string option" where
  "store_of opts = (case opts of None \<Rightarrow> None | Some o1 \<Rightarrow> store o1)"

definition fileKey :: "string option \<Rightarrow> fs_file \<Rightarrow> string" where
  "fileKey st self =
     to_string st @ ''/'' @ collectionName self @ ''/'' @ file_id self @ ''-'' @ file_name self"

text \<open>
  A call of a \<open>url\<close> method on a file. The installed method calls \<open>self._url\<close>,
  which is looked up on the prototype at the time of the call, so the call can nest
  (and, when \<open>_url\<close> is itself an installed method, nests without end); the first
  argument bounds the depth, and \<open>None\<close> means the bound was reached. A missing
  \<open>_url\<close> is a TypeError.
\<close>

fun call_url ::
  "nat \<Rightarrow> (fs_file \<Rightarrow> url_options option \<Rightarrow> string option) \<Rightarrow> globals \<Rightarrow> url_method \<Rightarrow>
   fs_file \<Rightarrow> url_options option \<Rightarrow> (error + string option) option" where
  "call_url 0 server g m self opts = None"
| "call_url (Suc n) server g ServerMediated self opts = Some (Inr (server self opts))"
| "call_url (Suc n) server g (DirectS3 url1) self opts =
     (case prototype_old_url g of
        None \<Rightarrow> Some (Inl TypeError)
      | Some old \<Rightarrow>
          (case call_url n server g old self opts of
             None \<Rightarrow> None
           | Some (Inl e) \<Rightarrow> Some (Inl e)
           | Some (Inr r) \<Rightarrow>
               Some (Inr (if truthy r then Some (url1 @ fileKey (store_of opts) self)
                          else None))))"

text \<open>\<open>file.url(options)\<close> in the process state \<open>g\<close>.\<close>

definition url ::
  "nat \<Rightarrow> (fs_file \<Rightarrow> url_options option \<Rightarrow> string option) \<Rightarrow> globals \<Rightarrow>
   fs_file \<Rightarrow> url_options option \<Rightarrow> (error + string option) option" where
  "url n server g self opts = call_url n server g (prototype_url g) self opts"

text \<open>The state of a process in which no factory has been constructed.\<close>

definition initial_globals :: globals where
  "initial_globals =
     \<lparr>headersForGet = [], prototype_url = ServerMediated, prototype_old_url = None\<rparr>"

subsection \<open>EasyImages\<close>

text \<open>
  \<open>required(options, name)\<close> for the one name it is called with; the argument is the
  value of \<open>options.imageCollectionFactory\<close>, \<open>None\<close> when it is not set.
\<close>

definition required :: "factory option \<Rightarrow> string \<Rightarrow> error + factory" where
  "required v name1 =
     (case v of
        Some f \<Rightarrow> Inr f
      | None \<Rightarrow> Inl (MeteorError
          (''Missing required parameter '' @ [CHR 39] @ name1 @ [CHR 39] @
           '' for EasyImages configuration'')))"

definition configure :: "factory option \<Rightarrow> error + factory" where
  "configure v = required v ''imageCollectionFactory''"

text \<open>
  \<open>EasyImages.bucketUrl()\<close>; the argument is \<open>this.imageCollectionFactory\<close>, \<open>None\<close>
  before \<open>configure\<close> has set it.
\<close>

definition EasyImages_bucketUrl :: "factory option \<Rightarrow> error + string" where
  "EasyImages_bucketUrl this_factory =
     (case this_factory of None \<Rightarrow> Inl TypeError | Some f \<Rightarrow> Inr (bucketUrl f))"

section \<open>Properties\<close>

text \<open>The loop changes \<open>factory.stores\<close> only.\<close>

lemma each_size_frame:
  "bucketUrl (snd (each_size f cn sizes)) = bucketUrl f
   \<and> var_accessKeyId (snd (each_size f cn sizes)) = var_accessKeyId f
   \<and> var_secretAccessKey (snd (each_size f cn sizes)) = var_secretAccessKey f
   \<and> var_bucketName (snd (each_size f cn sizes)) = var_bucketName f
   \<and> var_acl (snd (each_size f cn sizes)) = var_acl f"
  by (induction f cn sizes rule: each_size.induct) (simp_all split: sum.splits)

lemma createImageCollection_bucketUrl:
  "bucketUrl (snd (createImageCollection f cn sizes)) = bucketUrl f"
proof -
  let ?f1 = "f\<lparr>factory_stores := factory_stores f @ [original_store f cn]\<rparr>"
  obtain r f' where p: "each_size ?f1 cn sizes = (r, f')"
    by (cases "each_size ?f1 cn sizes")
  have "bucketUrl f' = bucketUrl ?f1"
    using each_size_frame [of ?f1 cn sizes] by (simp add: p)
  then show ?thesis
    by (cases r) (simp_all add: createImageCollection_def p)
qed

lemma variant_store_stores [simp]:
  "variant_store (f\<lparr>factory_stores := ss\<rparr>) cn n x y = variant_store f cn n x y"
  by (simp add: variant_store_def)

lemma original_store_stores [simp]:
  "original_store (f\<lparr>factory_stores := ss\<rparr>) cn = original_store f cn"
  by (simp add: original_store_def)

text \<open>The loop over a \<open>sizes\<close> object whose values are arrays of two numbers.\<close>

lemma each_size_arrays:
  "each_size f cn (map (\<lambda>(n, w, h). (n, Arr [Num w, Num h])) vs) =
     (None, f\<lparr>factory_stores := factory_stores f @
        map (\<lambda>(n, w, h). variant_store f cn n (Num w) (Num h)) vs\<rparr>)"
  by (induction vs arbitrary: f) auto

lemma createImageCollection_arrays:
  "createImageCollection f cn (map (\<lambda>(n, w, h). (n, Arr [Num w, Num h])) vs) =
     (Inr \<lparr>collection_name = cn,
           stores = factory_stores f @ original_store f cn #
             map (\<lambda>(n, w, h). variant_store f cn n (Num w) (Num h)) vs,
           collection_filter = the_filter\<rparr>,
      f\<lparr>factory_stores := factory_stores f @ original_store f cn #
             map (\<lambda>(n, w, h). variant_store f cn n (Num w) (Num h)) vs\<rparr>)"
  by (simp add: createImageCollection_def each_size_arrays)

lemma factory_fresh_stores:
  "factory_stores (fst (ImageCollectionFactory ak sk bn opts g)) = []"
  by (simp add: ImageCollectionFactory_def Let_def)

text \<open>
  A value that is \<open>null\<close> stops the call with a TypeError; the store of the original,
  pushed before the loop, stays in \<open>factory.stores\<close>.
\<close>

lemma createImageCollection_TypeError:
  "createImageCollection f cn [(n, Null)] =
     (Inl TypeError, f\<lparr>factory_stores := factory_stores f @ [original_store f cn]\<rparr>)"
  by (simp add: createImageCollection_def)

text \<open>The process state after the constructor.\<close>

lemma factory_globals:
  "snd (ImageCollectionFactory ak sk bn opts g) =
     (if is_publicRead opts
      then g\<lparr>headersForGet := [(''Cache-Control'', ''public, max-age=31536000'')],
             prototype_old_url := Some (prototype_url g),
             prototype_url := DirectS3 (bucketUrl (fst (ImageCollectionFactory ak sk bn opts g)))\<rparr>
      else g\<lparr>headersForGet := [(''Cache-Control'', ''public, max-age=31536000'')]\<rparr>)"
  by (simp add: ImageCollectionFactory_def Let_def)

lemma call_url_headers [simp]:
  "call_url n server (g\<lparr>headersForGet := h\<rparr>) m self uo = call_url n server g m self uo"
  by (induction n server g m self uo rule: call_url.induct) (simp_all split: option.splits)

text \<open>
  When \<open>_url\<close> is an installed method, it calls itself: no depth suffices. This is the
  state after two factories with \<open>publicRead\<close> have been constructed.
\<close>

lemma call_url_loop:
  "prototype_old_url g = Some (DirectS3 b) \<Longrightarrow> call_url n server g (DirectS3 b') self uo = None"
proof (induction n arbitrary: b')
  case 0
  show ?case by simp
next
  case (Suc n)
  from Suc.prems Suc.IH [OF Suc.prems, of b] show ?case by simp
qed

lemma url_two_public_factories:
  assumes "is_publicRead opts1" and "is_publicRead opts2"
  shows "url n server
           (snd (ImageCollectionFactory ak2 sk2 bn2 opts2
              (snd (ImageCollectionFactory ak1 sk1 bn1 opts1 g)))) self uo = None"
  using assms by (simp add: factory_globals url_def call_url_loop)

text \<open>
  With \<open>gm\<close> available, \<open>transformWrite\<close> pipes one job into its write stream: the
  read stream through \<open>resize(x, y, "^")\<close>, \<open>gravity("Center")\<close>, \<open>crop(x, y)\<close>,
  \<open>quality(100)\<close> and \<open>autoOrient()\<close>, in this order. What the image library makes
  of the job is not part of the model.
\<close>

lemma transformWrite_pipeline:
  "transformWrite_body True x y nm rs ws s =
     s\<lparr>piped := (piped s)(ws := piped s ws @
        [\<lparr>job_source = rs, job_filename = nm,
          job_ops = [Resize x y ''^'', Gravity ''Center'', Crop x y, Quality 100, AutoOrient]\<rparr>])\<rparr>"
  by (simp add: transformWrite_body_def)

text \<open>
  The filter every collection is given: at most 10 MiB, content type \<open>image/*\<close>, the
  four extensions; \<open>onInvalid\<close> shows or logs its message once. The filter is applied
  by the collection, outside this package.
\<close>

lemma the_filter_values:
  "maxSize the_filter = 10 * 2 ^ 20
   \<and> allow_contentTypes the_filter = [''image/*'']
   \<and> allow_extensions the_filter = [''png'', ''jpg'', ''jpeg'', ''gif'']"
  by (simp add: the_filter_def MAX_FILE_SIZE_def)

lemma createImageCollection_filter:
  "fst (createImageCollection f cn sizes) = Inr c \<Longrightarrow> collection_filter c = the_filter"
  by (auto simp: createImageCollection_def split: prod.splits option.splits)

lemma onInvalid_once:
  "length (alerts (onInvalid isClient msg s)) + length (console_warn (onInvalid isClient msg s)) =
     length (alerts s) + length (console_warn s) + 1"
  by (simp add: onInvalid_def)

subsection \<open>The stores of a collection\<close>

text \<open>
  C1. On a factory that has just been constructed, \<open>createImageCollection\<close> with a
  \<open>sizes\<close> object of N entries \<open>name: [width, height]\<close> returns a collection with
  exactly N + 1 stores: first the one named collection name + \<open>-original\<close>, without
  \<open>transformWrite\<close>, then for each entry, in order, one named collection name + \<open>-\<close> +
  entry name whose \<open>transformWrite\<close> holds that entry's width and height.
\<close>

theorem createImageCollection_plan:
  "\<exists>c. fst (createImageCollection (fst (ImageCollectionFactory ak sk bn opts g)) cn
             (map (\<lambda>(n, w, h). (n, Arr [Num w, Num h])) vs)) = Inr c
     \<and> length (stores c) = length vs + 1
     \<and> map name (stores c) = (cn @ ''-original'') # map (\<lambda>(n, w, h). cn @ ''-'' @ n) vs
     \<and> map transformWrite (stores c) = None # map (\<lambda>(n, w, h). Some (Num w, Num h)) vs"
proof -
  let ?f = "fst (ImageCollectionFactory ak sk bn opts g)"
  let ?c = "\<lparr>collection_name = cn,
             stores = original_store ?f cn #
               map (\<lambda>(n, w, h). variant_store ?f cn n (Num w) (Num h)) vs,
             collection_filter = the_filter\<rparr>"
  have a: "fst (createImageCollection ?f cn (map (\<lambda>(n, w, h). (n, Arr [Num w, Num h])) vs)) =
          Inr ?c"
    by (simp add: createImageCollection_arrays factory_fresh_stores)
  have b: "map name (stores ?c) =
      (cn @ ''-original'') # map (\<lambda>(n, w, h). cn @ ''-'' @ n) vs"
    by (simp add: original_store_def variant_store_def comp_def case_prod_unfold)
  have c: "map transformWrite (stores ?c) =
      None # map (\<lambda>(n, w, h). Some (Num w, Num h)) vs"
    by (simp add: original_store_def variant_store_def comp_def case_prod_unfold)
  have d: "length (stores ?c) = length vs + 1"
    by simp
  show ?thesis
    by (rule exI [of _ ?c]) (intro conjI d a b c)
qed

text \<open>
  C4, as amended. \<open>createImageCollection\<close> checks nothing: for every factory, every
  collection name (the empty one too) and every \<open>sizes\<close> object of N entries
  \<open>name: [width, height]\<close> (whatever the sign of the numbers, whatever the names) it
  returns a collection of that name, and \<open>factory.stores\<close>, N + 1 stores longer than
  before, is the list the collection was given.
\<close>

theorem createImageCollection_no_validation:
  "\<exists>c. createImageCollection f cn (map (\<lambda>(n, w, h). (n, Arr [Num w, Num h])) vs) =
         (Inr c, f\<lparr>factory_stores := stores c\<rparr>)
     \<and> collection_name c = cn
     \<and> length (stores c) = length (factory_stores f) + length vs + 1"
  by (simp add: createImageCollection_arrays)

text \<open>
  The claim as stated fails: with the empty collection name and a variant of width 0
  and height -5 the call returns a collection, with the stores \<open>-original\<close> and
  \<open>-thumb\<close>.
\<close>

theorem configuration_error_counterexample:
  "(case fst (createImageCollection
        (fst (ImageCollectionFactory ''k'' ''s'' ''photos'' None initial_globals))
        [] [(''thumb'', Arr [Num 0, Num (- 5)])]) of
      Inl e \<Rightarrow> None
    | Inr c \<Rightarrow> Some (collection_name c, map name (stores c), map transformWrite (stores c))) =
   Some ([], [''-original'', ''-thumb''], [None, Some (Num 0, Num (- 5))])"
  by (simp add: createImageCollection_def ImageCollectionFactory_def Let_def original_store_def
      variant_store_def)

text \<open>
  C5, as amended. Two calls with the same collection name and the same \<open>sizes\<close> object
  (N entries \<open>name: [width, height]\<close>) on one factory both return a collection. The
  first is given the stores the factory held before, followed by N + 1 new ones; the
  second is given the list of the first followed by the same N + 1 stores once more.
\<close>

theorem createImageCollection_twice:
  "\<exists>c1 f1 c2 f2.
      createImageCollection f cn (map (\<lambda>(n, w, h). (n, Arr [Num w, Num h])) vs) = (Inr c1, f1)
    \<and> createImageCollection f1 cn (map (\<lambda>(n, w, h). (n, Arr [Num w, Num h])) vs) = (Inr c2, f2)
    \<and> take (length (factory_stores f)) (stores c1) = factory_stores f
    \<and> stores c2 = stores c1 @ drop (length (factory_stores f)) (stores c1)
    \<and> length (stores c1) = length (factory_stores f) + (length vs + 1)
    \<and> length (stores c2) = length (factory_stores f) + 2 * (length vs + 1)"
  by (simp add: createImageCollection_arrays)

text \<open>
  The claim as stated fails: on a new factory, the first call for \<open>avatars\<close> with
  \<open>{thumb: [50, 50]}\<close> gives the collection two stores, the second call gives it four.
\<close>

theorem idempotence_counterexample:
  "(case fst (createImageCollection
        (fst (ImageCollectionFactory ''k'' ''s'' ''photos'' None initial_globals))
        ''avatars'' [(''thumb'', Arr [Num 50, Num 50])]) of
      Inl e \<Rightarrow> []
    | Inr c \<Rightarrow> map name (stores c)) = [''avatars-original'', ''avatars-thumb'']
   \<and> (case fst (createImageCollection
        (snd (createImageCollection
           (fst (ImageCollectionFactory ''k'' ''s'' ''photos'' None initial_globals))
           ''avatars'' [(''thumb'', Arr [Num 50, Num 50])]))
        ''avatars'' [(''thumb'', Arr [Num 50, Num 50])]) of
      Inl e \<Rightarrow> []
    | Inr c \<Rightarrow> map name (stores c)) =
     [''avatars-original'', ''avatars-thumb'', ''avatars-original'', ''avatars-thumb'']"
  by (simp add: createImageCollection_def ImageCollectionFactory_def Let_def original_store_def
      variant_store_def)

subsection \<open>The transform without the image library\<close>

text \<open>
  C7. When \<open>gm.isAvailable\<close> is false, \<open>transformWrite\<close> only adds the warning
  \<open>GraphicsMagick/ImageMagick not available\<close> to the console: nothing is piped into
  its write stream or into any other stream, and no alert is shown. The store of the
  original has no \<open>transformWrite\<close>.
\<close>

theorem transformWrite_gm_unavailable:
  "transformWrite_body False x y nm rs ws s =
     s\<lparr>console_warn := console_warn s @ [''GraphicsMagick/ImageMagick not available'']\<rparr>
   \<and> piped (transformWrite_body False x y nm rs ws s) = piped s
   \<and> alerts (transformWrite_body False x y nm rs ws s) = alerts s
   \<and> transformWrite (original_store f cn) = None"
  by (simp add: transformWrite_body_def original_store_def)

subsection \<open>The bucket URL\<close>

text \<open>
  C8. The bucket URL is \<open>https://\<close> + bucket name + \<open>.s3.amazonaws.com/\<close> when no
  region is given or the region is the empty string, and has \<open>-\<close> + region after the
  bucket name otherwise. \<open>createImageCollection\<close> and the \<open>EasyImages\<close> accessor leave
  it as the constructor computed it.
\<close>

theorem bucketUrl_format:
  "bucketUrl (fst (ImageCollectionFactory ak sk bn None g)) =
     ''https://'' @ bn @ ''.s3.amazonaws.com/''
   \<and> bucketUrl (fst (ImageCollectionFactory ak sk bn
        (Some \<lparr>publicRead = p, bucketRegion = None\<rparr>) g)) =
     ''https://'' @ bn @ ''.s3.amazonaws.com/''
   \<and> bucketUrl (fst (ImageCollectionFactory ak sk bn
        (Some \<lparr>publicRead = p, bucketRegion = Some r\<rparr>) g)) =
     (if r = [] then ''https://'' @ bn @ ''.s3.amazonaws.com/''
      else ''https://'' @ bn @ ''-'' @ r @ ''.s3.amazonaws.com/'')
   \<and> bucketUrl (snd (createImageCollection f cn sizes)) = bucketUrl f
   \<and> EasyImages_bucketUrl (Some (snd (createImageCollection f cn sizes))) = Inr (bucketUrl f)"
  by (simp add: ImageCollectionFactory_def region_def Let_def
      EasyImages_bucketUrl_def createImageCollection_bucketUrl)

subsection \<open>URL resolution\<close>

text \<open>
  C2. In a process whose \<open>url\<close> method is the server-mediated one, after the
  constructor has run: without \<open>publicRead\<close> (also without options), \<open>url\<close> returns
  what the server-mediated method returns; with \<open>publicRead\<close>, it returns \<open>null\<close>
  when the server-mediated method returns a value that is not truthy, and otherwise
  bucket URL + store + \<open>/\<close> + collection name + \<open>/\<close> + file id + \<open>-\<close> + file name.
\<close>

theorem url_resolution:
  assumes "prototype_url g = ServerMediated"
  shows "if is_publicRead opts
         then url (Suc (Suc n)) server (snd (ImageCollectionFactory ak sk bn opts g)) self uo =
                Some (Inr (if truthy (server self uo)
                  then Some (bucketUrl (fst (ImageCollectionFactory ak sk bn opts g)) @
                    to_string (store_of uo) @ ''/'' @ collectionName self @ ''/'' @
                    file_id self @ ''-'' @ file_name self)
                  else None))
         else url (Suc n) server (snd (ImageCollectionFactory ak sk bn opts g)) self uo =
                Some (Inr (server self uo))"
  using assms by (simp add: factory_globals url_def fileKey_def)

theorem url_resolution_witness:
  "url (Suc (Suc 0)) (\<lambda>f uo. Some ''/cfs/files/x'')
     (snd (ImageCollectionFactory ''k'' ''s'' ''photos''
        (Some \<lparr>publicRead = Some True, bucketRegion = None\<rparr>) initial_globals))
     \<lparr>collectionName = ''avatars'', file_id = ''id1'', file_name = ''a.png''\<rparr>
     (Some \<lparr>store = Some ''avatars-thumb''\<rparr>) =
   Some (Inr (Some ''https://photos.s3.amazonaws.com/avatars-thumb/avatars/id1-a.png''))
   \<and> url (Suc (Suc 0)) (\<lambda>f uo. None)
     (snd (ImageCollectionFactory ''k'' ''s'' ''photos''
        (Some \<lparr>publicRead = Some True, bucketRegion = None\<rparr>) initial_globals))
     \<lparr>collectionName = ''avatars'', file_id = ''id1'', file_name = ''a.png''\<rparr>
     (Some \<lparr>store = Some ''avatars-thumb''\<rparr>) = Some (Inr None)
   \<and> url (Suc 0) (\<lambda>f uo. Some ''/cfs/files/x'')
     (snd (ImageCollectionFactory ''k'' ''s'' ''photos'' None initial_globals))
     \<lparr>collectionName = ''avatars'', file_id = ''id1'', file_name = ''a.png''\<rparr>
     (Some \<lparr>store = Some ''avatars-thumb''\<rparr>) = Some (Inr (Some ''/cfs/files/x''))"
proof -
  have g: "prototype_url initial_globals = ServerMediated"
    by (simp add: initial_globals_def)
  let ?self = "\<lparr>collectionName = ''avatars'', file_id = ''id1'', file_name = ''a.png''\<rparr>"
  let ?uo = "Some \<lparr>store = Some ''avatars-thumb''\<rparr>"
  let ?pub = "Some \<lparr>publicRead = Some True, bucketRegion = None\<rparr>"
  note a = url_resolution [OF g, of ?pub 0 "\<lambda>f uo. Some ''/cfs/files/x''" "''k''" "''s''"
      "''photos''" ?self ?uo]
  note b = url_resolution [OF g, of ?pub 0 "\<lambda>f uo. None" "''k''" "''s''" "''photos''" ?self ?uo]
  note c = url_resolution [OF g, of None 0 "\<lambda>f uo. Some ''/cfs/files/x''" "''k''" "''s''"
      "''photos''" ?self ?uo]
  have f: "bucketUrl (fst (ImageCollectionFactory ''k'' ''s'' ''photos'' ?pub initial_globals)) =
      ''https://photos.s3.amazonaws.com/''"
    by (simp add: ImageCollectionFactory_def Let_def region_def)
  show ?thesis
    using a b c by (simp add: is_publicRead_def store_of_def f)
qed

text \<open>
  C9. The constructor replaces \<open>FS.File.prototype.url\<close>, a property of the whole
  process, exactly when \<open>publicRead\<close> is true: then \<open>url\<close> is the direct method of
  this factory's bucket URL and \<open>_url\<close> the method that was there before; otherwise
  both properties are as before, and \<open>url\<close> of every file gives what it gave before.
\<close>

theorem url_override_installed_iff:
  "if is_publicRead opts
   then prototype_url (snd (ImageCollectionFactory ak sk bn opts g)) =
          DirectS3 (bucketUrl (fst (ImageCollectionFactory ak sk bn opts g)))
      \<and> prototype_old_url (snd (ImageCollectionFactory ak sk bn opts g)) = Some (prototype_url g)
   else prototype_url (snd (ImageCollectionFactory ak sk bn opts g)) = prototype_url g
      \<and> prototype_old_url (snd (ImageCollectionFactory ak sk bn opts g)) = prototype_old_url g
      \<and> url n server (snd (ImageCollectionFactory ak sk bn opts g)) self uo =
          url n server g self uo"
  by (simp add: factory_globals url_def)

text \<open>
  C10. With \<open>publicRead\<close>, in a process whose \<open>url\<close> method was the server-mediated
  one: when \<open>url\<close> is called without options, or with options that have no \<open>store\<close>,
  and the server-mediated method returns a truthy value, the result is bucket URL +
  \<open>undefined/\<close> + collection name + \<open>/\<close> + file id + \<open>-\<close> + file name.
\<close>

theorem url_without_store:
  assumes "prototype_url g = ServerMediated"
    and "is_publicRead opts"
    and "truthy (server self uo)"
    and "uo = None \<or> uo = Some \<lparr>store = None\<rparr>"
  shows "url (Suc (Suc n)) server (snd (ImageCollectionFactory ak sk bn opts g)) self uo =
     Some (Inr (Some (bucketUrl (fst (ImageCollectionFactory ak sk bn opts g)) @
       ''undefined/'' @ collectionName self @ ''/'' @ file_id self @ ''-'' @ file_name self)))"
  using assms by (auto simp add: factory_globals url_def fileKey_def store_of_def)

theorem url_without_store_witness:
  "url (Suc (Suc 0)) (\<lambda>f uo. Some ''/cfs/files/x'')
     (snd (ImageCollectionFactory ''k'' ''s'' ''photos''
        (Some \<lparr>publicRead = Some True, bucketRegion = Some ''eu-west-1''\<rparr>) initial_globals))
     \<lparr>collectionName = ''avatars'', file_id = ''id1'', file_name = ''a.png''\<rparr> None =
   Some (Inr (Some ''https://photos-eu-west-1.s3.amazonaws.com/undefined/avatars/id1-a.png''))"
proof -
  let ?opts = "Some \<lparr>publicRead = Some True, bucketRegion = Some ''eu-west-1''\<rparr>"
  let ?self = "\<lparr>collectionName = ''avatars'', file_id = ''id1'', file_name = ''a.png''\<rparr>"
  have g: "prototype_url initial_globals = ServerMediated"
    by (simp add: initial_globals_def)
  have p: "is_publicRead ?opts"
    by (simp add: is_publicRead_def)
  have t: "truthy ((\<lambda>f uo. Some ''/cfs/files/x'') ?self (None :: url_options option))"
    by simp
  have u: "(None :: url_options option) = None \<or> None = Some \<lparr>store = None\<rparr>"
    by simp
  have f: "bucketUrl (fst (ImageCollectionFactory ''k'' ''s'' ''photos'' ?opts initial_globals)) =
      ''https://photos-eu-west-1.s3.amazonaws.com/''"
    by (simp add: ImageCollectionFactory_def Let_def region_def)
  from url_without_store [OF g p t u, of 0 "''k''" "''s''" "''photos''"] show ?thesis
    by (simp add: f)
qed

end
